theory Spec2Isabelle
  imports Main "HOL-Library.Sublist"
begin

section \<open>Data model of the settings pane (LayoutShell.tsx)\<close>

text \<open>
  \<^verbatim>\<open>type LocalProfile = { name; provider; baseUrl; apiKey; model; enabled }\<close> (lines 3-10) and
  \<^verbatim>\<open>type ProviderProfilePayload = { name; provider; base_url; api_key; model; enabled }\<close>
  (lines 12-19). Both declare \<^verbatim>\<open>provider\<close> as a plain string.
\<close>

record LocalProfile =
  name :: string
  provider :: string
  baseUrl :: string
  apiKey :: string
  model :: string
  enabled :: bool

record ProviderProfilePayload =
  name :: string
  provider :: string
  base_url :: string
  api_key :: string
  model :: string
  enabled :: bool

text \<open>\<^verbatim>\<open>type StatusTone = "info" | "success" | "error"\<close> (line 21).\<close>

datatype StatusTone = ToneInfo | ToneSuccess | ToneError

text \<open>
  \<^verbatim>\<open>providerChoices\<close> (lines 33-39): the options of the provider selector, each a pair of
  the option's value and its label.
\<close>

definition providerChoices :: "(string \<times> string) list" where
  "providerChoices =
     [(''openai'', ''OpenAI''),
      (''claude'', ''Claude''),
      (''gemini'', ''Gemini''),
      (''relay'', ''OpenAI Relay''),
      (''cc-switch'', ''CC-Switch Relay'')]"

text \<open>\<^verbatim>\<open>initialProfiles\<close> (lines 41-50).\<close>

definition initialProfiles :: "LocalProfile list" where
  "initialProfiles =
     [\<lparr> LocalProfile.name = ''Primary OpenAI'',
        LocalProfile.provider = ''openai'',
        baseUrl = ''https://api.openai.com/v1'',
        apiKey = '''',
        LocalProfile.model = ''gpt-4.1-mini'',
        LocalProfile.enabled = True \<rparr>]"

text \<open>\<^verbatim>\<open>toLocalProfile\<close> (lines 59-68) and \<^verbatim>\<open>toPayload\<close> (lines 70-79).\<close>

definition toLocalProfile :: "ProviderProfilePayload \<Rightarrow> LocalProfile" where
  "toLocalProfile payload =
     \<lparr> LocalProfile.name = ProviderProfilePayload.name payload,
       LocalProfile.provider = ProviderProfilePayload.provider payload,
       baseUrl = base_url payload,
       apiKey = api_key payload,
       LocalProfile.model = ProviderProfilePayload.model payload,
       LocalProfile.enabled = ProviderProfilePayload.enabled payload \<rparr>"

definition toPayload :: "LocalProfile \<Rightarrow> ProviderProfilePayload" where
  "toPayload profile =
     \<lparr> ProviderProfilePayload.name = LocalProfile.name profile,
       ProviderProfilePayload.provider = LocalProfile.provider profile,
       base_url = baseUrl profile,
       api_key = apiKey profile,
       ProviderProfilePayload.model = LocalProfile.model profile,
       ProviderProfilePayload.enabled = LocalProfile.enabled profile \<rparr>"

section \<open>The Tauri bridge\<close>

text \<open>
  A value caught by \<^verbatim>\<open>catch (error)\<close>: either an \<^verbatim>\<open>Error\<close> object, of which the handlers
  read \<^verbatim>\<open>error.message\<close>, or any other rejected value (Tauri rejects with the command's
  own error value), of which they read nothing.
\<close>

datatype thrown = ErrorObject string | OtherValue string

text \<open>
  The argument object of an invocation, \<^verbatim>\<open>Record<string, unknown>\<close>, as an association
  list in the order the object literal is written.
\<close>

datatype js_value = JString string | JProfiles "ProviderProfilePayload list"

type_synonym invoke_args = "(string \<times> js_value) list"

text \<open>
  \<^verbatim>\<open>window.__TAURI__.core.invoke\<close>: a command name and arguments go to the backend, which
  resolves with a result or rejects, and may change its own state \<open>'b\<close> (the vault on
  disk). The result type \<open>'r\<close> is the type parameter \<^verbatim>\<open>T\<close> of the source.
\<close>

type_synonym ('b, 'r) invoke = "string \<Rightarrow> invoke_args \<Rightarrow> 'b \<Rightarrow> (thrown + 'r) \<times> 'b"

text \<open>
  \<^verbatim>\<open>invokeTauri\<close> (lines 81-87): throws when the runtime is absent (\<open>None\<close>), otherwise
  forwards the call.
\<close>

definition invokeTauri ::
  "('b, 'r) invoke option \<Rightarrow> string \<Rightarrow> invoke_args \<Rightarrow> 'b \<Rightarrow> (thrown + 'r) \<times> 'b" where
  "invokeTauri runtime cmd args b =
     (case runtime of
        None \<Rightarrow> (Inl (ErrorObject ''Tauri runtime is unavailable in browser preview mode.''), b)
      | Some f \<Rightarrow> f cmd args b)"

section \<open>Component state and its handlers\<close>

text \<open>
  The six \<^verbatim>\<open>useState\<close> cells of \<^verbatim>\<open>LayoutShell\<close> (lines 165-172). Every handler below
  is a function of the state of the render that registered it: events are handled one at a
  time, so the \<^verbatim>\<open>previous\<close> of a functional update is the rendered value.
  \<^verbatim>\<open>activeProfileIndex\<close> is a JavaScript number holding an integer.
\<close>

record shell_state =
  passphrase :: string
  profiles :: "LocalProfile list"
  activeProfileIndex :: int
  isWorking :: bool
  statusTone :: StatusTone
  statusMessage :: string

definition initial_state :: shell_state where
  "initial_state =
     \<lparr> passphrase = '''',
       profiles = initialProfiles,
       activeProfileIndex = 0,
       isWorking = False,
       statusTone = ToneInfo,
       statusMessage = ''Configure provider credentials, then save encrypted profiles.'' \<rparr>"

text \<open>Decimal rendering of a length inside a template literal.\<close>

fun show_nat :: "nat \<Rightarrow> string" where
  "show_nat n =
     (if n < 10 then [''0123456789'' ! n]
      else show_nat (n div 10) @ [''0123456789'' ! (n mod 10)])"

text \<open>
  \<^verbatim>\<open>setProfileField(key, value)\<close> (lines 188-192): the key and its value as one tagged
  value; the update \<^verbatim>\<open>{ ...item, [key]: value }\<close> touches the item at the active index only.
\<close>

datatype profile_field =
  FieldName string
  | FieldProvider string
  | FieldBaseUrl string
  | FieldApiKey string
  | FieldModel string
  | FieldEnabled bool

fun assign_field :: "profile_field \<Rightarrow> LocalProfile \<Rightarrow> LocalProfile" where
  "assign_field (FieldName v) item = item\<lparr>LocalProfile.name := v\<rparr>"
| "assign_field (FieldProvider v) item = item\<lparr>LocalProfile.provider := v\<rparr>"
| "assign_field (FieldBaseUrl v) item = item\<lparr>baseUrl := v\<rparr>"
| "assign_field (FieldApiKey v) item = item\<lparr>apiKey := v\<rparr>"
| "assign_field (FieldModel v) item = item\<lparr>LocalProfile.model := v\<rparr>"
| "assign_field (FieldEnabled v) item = item\<lparr>LocalProfile.enabled := v\<rparr>"

definition setProfileField :: "profile_field \<Rightarrow> shell_state \<Rightarrow> shell_state" where
  "setProfileField kv st =
     st\<lparr>profiles :=
          map (\<lambda>(index, item). if int index = activeProfileIndex st then assign_field kv item else item)
              (enumerate 0 (profiles st))\<rparr>"

text \<open>\<^verbatim>\<open>addProfile\<close> (lines 194-207).\<close>

definition addProfile :: "shell_state \<Rightarrow> shell_state" where
  "addProfile st =
     st\<lparr>profiles :=
          profiles st @
          [\<lparr> LocalProfile.name = ''Profile '' @ show_nat (length (profiles st) + 1),
             LocalProfile.provider = ''openai'',
             baseUrl = ''https://api.openai.com/v1'',
             apiKey = '''',
             LocalProfile.model = ''gpt-4.1-mini'',
             LocalProfile.enabled = True \<rparr>],
        activeProfileIndex := int (length (profiles st))\<rparr>"

text \<open>\<^verbatim>\<open>removeProfile\<close> (lines 209-215).\<close>

definition removeProfile :: "shell_state \<Rightarrow> shell_state" where
  "removeProfile st =
     (if length (profiles st) \<le> 1 then st
      else st\<lparr>profiles :=
                 map snd (filter (\<lambda>(index, _). int index \<noteq> activeProfileIndex st)
                                 (enumerate 0 (profiles st))),
               activeProfileIndex := max 0 (activeProfileIndex st - 1)\<rparr>)"

text \<open>
  \<^verbatim>\<open>handleLoadProfiles\<close> (lines 217-238). The handler runs to completion with no other
  event in between; \<^verbatim>\<open>passphrase\<close> is the value the handler closed over.
\<close>

definition handleLoadProfiles ::
  "('b, ProviderProfilePayload list) invoke option \<Rightarrow> shell_state \<Rightarrow> 'b \<Rightarrow> shell_state \<times> 'b" where
  "handleLoadProfiles runtime st b =
     (let working = st\<lparr>isWorking := True\<rparr> in
      case invokeTauri runtime ''load_profiles'' [(''passphrase'', JString (passphrase st))] b of
        (Inr loaded, b') \<Rightarrow>
          ((if length loaded = 0
            then working\<lparr>statusTone := ToneInfo,
                         statusMessage :=
                           ''No encrypted profiles found. Save one to create your settings vault.''\<rparr>
            else working\<lparr>profiles := map toLocalProfile loaded,
                         activeProfileIndex := 0,
                         statusTone := ToneSuccess,
                         statusMessage :=
                           ''Loaded '' @ show_nat (length loaded) @ '' encrypted profile(s).''\<rparr>)
           \<lparr>isWorking := False\<rparr>, b')
      | (Inl err, b') \<Rightarrow>
          (working\<lparr>statusTone := ToneError,
                   statusMessage :=
                     (case err of
                        ErrorObject message \<Rightarrow> message
                      | OtherValue _ \<Rightarrow> ''Failed to load profiles from encrypted store.''),
                   isWorking := False\<rparr>, b'))"

text \<open>\<^verbatim>\<open>handleSaveProfiles\<close> (lines 240-257).\<close>

definition handleSaveProfiles ::
  "('b, 'r) invoke option \<Rightarrow> shell_state \<Rightarrow> 'b \<Rightarrow> shell_state \<times> 'b" where
  "handleSaveProfiles runtime st b =
     (let working = st\<lparr>isWorking := True\<rparr> in
      case invokeTauri runtime ''save_profiles''
             [(''passphrase'', JString (passphrase st)),
              (''profiles'', JProfiles (map toPayload (profiles st)))] b of
        (Inr _, b') \<Rightarrow>
          (working\<lparr>statusTone := ToneSuccess,
                   statusMessage :=
                     ''Saved '' @ show_nat (length (profiles st)) @ '' profile(s) to encrypted storage.'',
                   isWorking := False\<rparr>, b')
      | (Inl err, b') \<Rightarrow>
          (working\<lparr>statusTone := ToneError,
                   statusMessage :=
                     (case err of
                        ErrorObject message \<Rightarrow> message
                      | OtherValue _ \<Rightarrow> ''Failed to save profiles into encrypted store.''),
                   isWorking := False\<rparr>, b'))"

section \<open>Sequences of list operations\<close>

text \<open>The two buttons beside the profile selector (lines 388-393), clicked one after another.\<close>

datatype list_op = Add | Remove

fun apply_list_op :: "list_op \<Rightarrow> shell_state \<Rightarrow> shell_state" where
  "apply_list_op Add st = addProfile st"
| "apply_list_op Remove st = removeProfile st"

fun run_ops :: "list_op list \<Rightarrow> shell_state \<Rightarrow> shell_state" where
  "run_ops [] st = st"
| "run_ops (op # ops) st = run_ops ops (apply_list_op op st)"

text \<open>The selection points at a profile of a non-empty list.\<close>

definition selection_valid :: "shell_state \<Rightarrow> bool" where
  "selection_valid st =
     (profiles st \<noteq> [] \<and> 0 \<le> activeProfileIndex st \<and>
      activeProfileIndex st < int (length (profiles st)))"

section \<open>Backends used to exercise the handlers\<close>

text \<open>A backend that rejects every call with a given value, and one that resolves with a given result.\<close>

definition reject_with :: "thrown \<Rightarrow> ('b, 'r) invoke" where
  "reject_with v cmd args b = (Inl v, b)"

definition resolve_with :: "'r \<Rightarrow> ('b, 'r) invoke" where
  "resolve_with r cmd args b = (Inr r, b)"

text \<open>A backend that records each call it receives and resolves with a given result.\<close>

definition recording :: "'r \<Rightarrow> ((string \<times> invoke_args) list, 'r) invoke" where
  "recording r cmd args calls = (Inr r, calls @ [(cmd, args)])"

text \<open>A backend whose \<^verbatim>\<open>Error\<close> message quotes the passphrase it was called with.\<close>

definition quoting :: "('b, 'r) invoke" where
  "quoting cmd args b =
     (Inl (ErrorObject (''wrong passphrase: '' @
             (case map_of args ''passphrase'' of Some (JString pass) \<Rightarrow> pass | _ \<Rightarrow> []))), b)"

section \<open>Secrets\<close>

text \<open>
  Two runs differ only in secrets when they agree once every API key and the passphrase are
  blanked.
\<close>

definition redact_profile :: "LocalProfile \<Rightarrow> LocalProfile" where
  "redact_profile p = p\<lparr>apiKey := ''''\<rparr>"

definition redact_payload :: "ProviderProfilePayload \<Rightarrow> ProviderProfilePayload" where
  "redact_payload p = p\<lparr>api_key := ''''\<rparr>"

definition redact_state :: "shell_state \<Rightarrow> shell_state" where
  "redact_state st = st\<lparr>passphrase := '''', profiles := map redact_profile (profiles st)\<rparr>"

definition redact_loaded ::
  "thrown + ProviderProfilePayload list \<Rightarrow> thrown + ProviderProfilePayload list" where
  "redact_loaded r = (case r of Inl e \<Rightarrow> Inl e | Inr loaded \<Rightarrow> Inr (map redact_payload loaded))"

definition redact_saved :: "thrown + 'r \<Rightarrow> thrown + unit" where
  "redact_saved r = (case r of Inl e \<Rightarrow> Inl e | Inr _ \<Rightarrow> Inr ())"

section \<open>Provider values\<close>

text \<open>
  The four provider kinds the specification enumerates, and the selector value that stands
  for each: official OpenAI, official Anthropic (\<^verbatim>\<open>claude\<close>), official Gemini, and the generic
  OpenAI-compatible relay (\<^verbatim>\<open>relay\<close>, labelled "OpenAI Relay").
\<close>

definition spec_provider_values :: "string list" where
  "spec_provider_values = [''openai'', ''claude'', ''gemini'', ''relay'']"

text \<open>Every profile of the state carries a value of the provider selector.\<close>

definition providers_selectable :: "shell_state \<Rightarrow> bool" where
  "providers_selectable st =
     list_all (\<lambda>p. LocalProfile.provider p \<in> set (map fst providerChoices)) (profiles st)"

section \<open>The credential vault behind the two commands\<close>

text \<open>
  Modelled from the spec: the Tauri commands \<^verbatim>\<open>load_profiles\<close> and \<^verbatim>\<open>save_profiles\<close> and the
  credential vault under them belong to the Rust backend; LayoutShell.tsx holds their caller
  only (the handlers above). The definitions of this section follow sections 3, 4.2, 6 and 7
  of the specification. The error kinds of the vault (section 7):
\<close>

datatype CryptoError = WrongPassphraseOrCorruptData | SerializationFailed

text \<open>
  Modelled from the spec: the vault envelope (section 3), "format version, random salt, random
  nonce, ciphertext, authentication tag".
\<close>

record ('salt, 'nonce, 'ct, 'tag) VaultEnvelope =
  version :: nat
  salt :: 'salt
  nonce :: 'nonce
  ciphertext :: 'ct
  tag :: 'tag

text \<open>
  Modelled from the spec: the "key-derivation + authenticated-encryption primitive" the vault
  depends on (section 2), and the serialisation of a profile list, as parameters. Section 4.2
  also lets \<^verbatim>\<open>save\<close> fail on cipher initialisation; section 7 names no error kind for it,
  so encryption is total here.
\<close>

record ('key, 'salt, 'nonce, 'pt, 'ct, 'tag) vault_primitives =
  format_version :: nat
  derive_key :: "string \<Rightarrow> 'salt \<Rightarrow> 'key"
  serialize :: "ProviderProfilePayload list \<Rightarrow> 'pt option"
  deserialize :: "'pt \<Rightarrow> ProviderProfilePayload list option"
  encrypt :: "'key \<Rightarrow> 'nonce \<Rightarrow> 'pt \<Rightarrow> 'ct \<times> 'tag"
  decrypt :: "'key \<Rightarrow> 'nonce \<Rightarrow> 'ct \<Rightarrow> 'tag \<Rightarrow> 'pt option"

text \<open>
  What the vault needs of its primitives: authenticated decryption under the same key and
  nonce opens what encryption sealed, and deserialisation reads back what serialisation wrote.
\<close>

definition primitives_sound :: "('key, 'salt, 'nonce, 'pt, 'ct, 'tag) vault_primitives \<Rightarrow> bool" where
  "primitives_sound P =
     ((\<forall>k n pt. decrypt P k n (fst (encrypt P k n pt)) (snd (encrypt P k n pt)) = Some pt) \<and>
      (\<forall>ps pt. serialize P ps = Some pt \<longrightarrow> deserialize P pt = Some ps))"

text \<open>
  Modelled from the spec: \<^verbatim>\<open>save(passphrase, profiles) -> Envelope | CryptoError\<close> (section
  4.2): derive the key from the passphrase and a fresh salt, serialise the list, encrypt it
  under a fresh nonce, emit the versioned envelope. The fresh salt and nonce are arguments.
\<close>

definition vault_save ::
  "('key, 'salt, 'nonce, 'pt, 'ct, 'tag) vault_primitives \<Rightarrow> string \<Rightarrow> 'salt \<Rightarrow> 'nonce \<Rightarrow>
   ProviderProfilePayload list \<Rightarrow> CryptoError + ('salt, 'nonce, 'ct, 'tag) VaultEnvelope" where
  "vault_save P pass fresh_salt fresh_nonce ps =
     (case serialize P ps of
        None \<Rightarrow> Inl SerializationFailed
      | Some pt \<Rightarrow>
          (case encrypt P (derive_key P pass fresh_salt) fresh_nonce pt of
             (ct, tg) \<Rightarrow>
               Inr \<lparr> version = format_version P, salt = fresh_salt, nonce = fresh_nonce,
                     ciphertext = ct, tag = tg \<rparr>))"

text \<open>
  Modelled from the spec: \<^verbatim>\<open>load(passphrase, envelope) -> profiles | CryptoError\<close> (section
  4.2): re-derive the key from the stored salt, decrypt with authentication; a failed tag is
  \<^verbatim>\<open>WrongPassphraseOrCorruptData\<close>.
\<close>

definition vault_load ::
  "('key, 'salt, 'nonce, 'pt, 'ct, 'tag) vault_primitives \<Rightarrow> string \<Rightarrow>
   ('salt, 'nonce, 'ct, 'tag) VaultEnvelope \<Rightarrow> CryptoError + ProviderProfilePayload list" where
  "vault_load P pass env =
     (case decrypt P (derive_key P pass (salt env)) (nonce env) (ciphertext env) (tag env) of
        None \<Rightarrow> Inl WrongPassphraseOrCorruptData
      | Some pt \<Rightarrow>
          (case deserialize P pt of
             None \<Rightarrow> Inl SerializationFailed
           | Some ps \<Rightarrow> Inr ps))"

text \<open>
  Modelled from the spec: the errors of the operation surface. Section 3 asks that a list with
  a repeated name be rejected on save and names no error kind for it.
\<close>

datatype operation_error = DuplicateProfileName | Crypto CryptoError

text \<open>
  Modelled from the spec: \<^verbatim>\<open>save_profiles(passphrase, list) -> ok | error\<close> (section 6) over
  the one persisted vault blob (\<open>None\<close> before the first save): names must be unique
  within the list ("reject on save", section 3); the blob is rewritten wholesale on success
  and untouched on failure.
\<close>

definition save_profiles ::
  "('key, 'salt, 'nonce, 'pt, 'ct, 'tag) vault_primitives \<Rightarrow> 'salt \<Rightarrow> 'nonce \<Rightarrow> string \<Rightarrow>
   ProviderProfilePayload list \<Rightarrow> ('salt, 'nonce, 'ct, 'tag) VaultEnvelope option \<Rightarrow>
   (operation_error + unit) \<times> ('salt, 'nonce, 'ct, 'tag) VaultEnvelope option" where
  "save_profiles P fresh_salt fresh_nonce pass ps blob =
     (if \<not> distinct (map ProviderProfilePayload.name ps) then (Inl DuplicateProfileName, blob)
      else case vault_save P pass fresh_salt fresh_nonce ps of
             Inl e \<Rightarrow> (Inl (Crypto e), blob)
           | Inr env \<Rightarrow> (Inr (), Some env))"

text \<open>
  Modelled from the spec: \<^verbatim>\<open>load_profiles(passphrase) -> list | error\<close> (section 6). The
  specification does not say what is returned before the first save; the empty list is what
  the caller expects there (LayoutShell.tsx lines 221-223).
\<close>

definition load_profiles ::
  "('key, 'salt, 'nonce, 'pt, 'ct, 'tag) vault_primitives \<Rightarrow> string \<Rightarrow>
   ('salt, 'nonce, 'ct, 'tag) VaultEnvelope option \<Rightarrow> operation_error + ProviderProfilePayload list" where
  "load_profiles P pass blob =
     (case blob of
        None \<Rightarrow> Inr []
      | Some env \<Rightarrow>
          (case vault_load P pass env of Inl e \<Rightarrow> Inl (Crypto e) | Inr ps \<Rightarrow> Inr ps))"

text \<open>
  Modelled from the spec: the name of an error kind (section 7), as the value a failed command
  is rejected with. Tauri rejects with the command's error value, which is not an
  \<^verbatim>\<open>Error\<close> object.
\<close>

fun error_kind :: "operation_error \<Rightarrow> string" where
  "error_kind DuplicateProfileName = ''DuplicateProfileName''"
| "error_kind (Crypto WrongPassphraseOrCorruptData) = ''WrongPassphraseOrCorruptData''"
| "error_kind (Crypto SerializationFailed) = ''SerializationFailed''"

text \<open>
  Modelled from the spec: the command \<^verbatim>\<open>load_profiles\<close> as the Tauri runtime offers it to
  \<^verbatim>\<open>invoke\<close>: it reads the \<^verbatim>\<open>passphrase\<close> argument, loads from the persisted blob and
  resolves with the profiles or rejects with the error kind.
\<close>

definition load_command ::
  "('key, 'salt, 'nonce, 'pt, 'ct, 'tag) vault_primitives \<Rightarrow>
   (('salt, 'nonce, 'ct, 'tag) VaultEnvelope option, ProviderProfilePayload list) invoke" where
  "load_command P cmd args blob =
     (if cmd \<noteq> ''load_profiles'' then (Inl (OtherValue ''unknown command''), blob)
      else case map_of args ''passphrase'' of
             Some (JString pass) \<Rightarrow>
               (case load_profiles P pass blob of
                  Inl e \<Rightarrow> (Inl (OtherValue (error_kind e)), blob)
                | Inr ps \<Rightarrow> (Inr ps, blob))
           | _ \<Rightarrow> (Inl (OtherValue ''invalid arguments''), blob))"

text \<open>
  A transparent stand-in for the primitives, to exercise the vault: the key is the pair of
  passphrase and salt, the ciphertext is the plaintext, the tag is the key with the nonce.
\<close>

definition toy_primitives ::
  "(string \<times> nat, nat, nat, ProviderProfilePayload list, ProviderProfilePayload list,
    (string \<times> nat) \<times> nat) vault_primitives" where
  "toy_primitives =
     \<lparr> format_version = 1,
       derive_key = (\<lambda>pass s. (pass, s)),
       serialize = Some,
       deserialize = Some,
       encrypt = (\<lambda>k n pt. (pt, (k, n))),
       decrypt = (\<lambda>k n ct tg. if tg = (k, n) then Some ct else None) \<rparr>"

text \<open>
  The profile selector (line 378), \<^verbatim>\<open>setActiveProfileIndex(Number(event.target.value))\<close>,
  and a state with a repeated name that the buttons reach: add twice, select the second
  profile, remove it, add again.
\<close>

definition selectProfile :: "int \<Rightarrow> shell_state \<Rightarrow> shell_state" where
  "selectProfile i st = st\<lparr>activeProfileIndex := i\<rparr>"

definition duplicate_state :: shell_state where
  "duplicate_state = addProfile (removeProfile (selectProfile 1 (run_ops [Add, Add] initial_state)))"

section \<open>Sample data\<close>

text \<open>A profile as the backend returns it, used to exercise the handlers.\<close>

definition profileA :: ProviderProfilePayload where
  "profileA = \<lparr> ProviderProfilePayload.name = ''work'',
       ProviderProfilePayload.provider = ''openai'',
       base_url = ''https://api.openai.com/v1'',
       api_key = ''k1'',
       ProviderProfilePayload.model = ''gpt-4o-mini'',
       ProviderProfilePayload.enabled = True \<rparr>"

text \<open>The initial state after the user typed a passphrase and an API key.\<close>

definition secret_state :: "string \<Rightarrow> string \<Rightarrow> shell_state" where
  "secret_state pass key = setProfileField (FieldApiKey key) (initial_state\<lparr>passphrase := pass\<rparr>)"

declare show_nat.simps [simp del]

section \<open>Basic facts about the conversions and the handlers\<close>

lemma toLocalProfile_toPayload: "toLocalProfile (toPayload p) = p"
  by (simp add: toLocalProfile_def toPayload_def)

lemma toPayload_toLocalProfile: "toPayload (toLocalProfile q) = q"
  by (simp add: toLocalProfile_def toPayload_def)

lemma map_toLocalProfile_toPayload: "map toLocalProfile (map toPayload ps) = ps"
  by (induction ps) (simp_all add: toLocalProfile_toPayload)

lemma load_rejected:
  assumes "invokeTauri runtime ''load_profiles'' [(''passphrase'', JString (passphrase st))] b = (Inl err, b')"
  shows "handleLoadProfiles runtime st b =
    (st\<lparr>statusTone := ToneError,
        statusMessage := (case err of ErrorObject message \<Rightarrow> message
                          | OtherValue _ \<Rightarrow> ''Failed to load profiles from encrypted store.''),
        isWorking := False\<rparr>, b')"
  using assms by (simp add: handleLoadProfiles_def Let_def)

lemma load_empty:
  assumes "invokeTauri runtime ''load_profiles'' [(''passphrase'', JString (passphrase st))] b = (Inr [], b')"
  shows "handleLoadProfiles runtime st b =
    (st\<lparr>statusTone := ToneInfo,
        statusMessage := ''No encrypted profiles found. Save one to create your settings vault.'',
        isWorking := False\<rparr>, b')"
  using assms by (simp add: handleLoadProfiles_def Let_def)

lemma load_nonempty:
  assumes "invokeTauri runtime ''load_profiles'' [(''passphrase'', JString (passphrase st))] b = (Inr loaded, b')"
    and "loaded \<noteq> []"
  shows "handleLoadProfiles runtime st b =
    (st\<lparr>profiles := map toLocalProfile loaded,
        activeProfileIndex := 0,
        statusTone := ToneSuccess,
        statusMessage := ''Loaded '' @ show_nat (length loaded) @ '' encrypted profile(s).'',
        isWorking := False\<rparr>, b')"
  using assms by (simp add: handleLoadProfiles_def Let_def)

lemma save_rejected:
  assumes "invokeTauri runtime ''save_profiles''
             [(''passphrase'', JString (passphrase st)),
              (''profiles'', JProfiles (map toPayload (profiles st)))] b = (Inl err, b')"
  shows "handleSaveProfiles runtime st b =
    (st\<lparr>statusTone := ToneError,
        statusMessage := (case err of ErrorObject message \<Rightarrow> message
                          | OtherValue _ \<Rightarrow> ''Failed to save profiles into encrypted store.''),
        isWorking := False\<rparr>, b')"
  using assms by (simp add: handleSaveProfiles_def Let_def)

lemma save_resolved:
  assumes "invokeTauri runtime ''save_profiles''
             [(''passphrase'', JString (passphrase st)),
              (''profiles'', JProfiles (map toPayload (profiles st)))] b = (Inr r, b')"
  shows "handleSaveProfiles runtime st b =
    (st\<lparr>statusTone := ToneSuccess,
        statusMessage := ''Saved '' @ show_nat (length (profiles st)) @ '' profile(s) to encrypted storage.'',
        isWorking := False\<rparr>, b')"
  using assms by (simp add: handleSaveProfiles_def Let_def)

lemma length_filter_enumerate:
  "length (filter (\<lambda>(index, _). int index \<noteq> a) (enumerate n xs)) =
     (if int n \<le> a \<and> a < int n + int (length xs) then length xs - 1 else length xs)"
proof (induction xs arbitrary: n)
  case Nil
  then show ?case by simp
next
  case (Cons x xs)
  show ?case using Cons.IH [of "Suc n"] by (cases xs) auto
qed

lemma remove_at_enumerate:
  "k < length xs \<Longrightarrow>
   map snd (filter (\<lambda>(index, _). int index \<noteq> int (n + k)) (enumerate n xs)) = take k xs @ drop (Suc k) xs"
proof (induction xs arbitrary: n k)
  case Nil
  then show ?case by simp
next
  case (Cons x xs)
  show ?case
  proof (cases k)
    case 0
    have "filter (\<lambda>(index, _). int index \<noteq> int n) (enumerate (Suc n) xs) = enumerate (Suc n) xs"
      by (rule filter_True) (auto simp: in_set_enumerate_eq)
    with 0 show ?thesis by simp
  next
    case (Suc j)
    with Cons.prems have "j < length xs" by simp
    from Cons.IH [OF this, of "Suc n"] Suc show ?thesis by simp
  qed
qed

lemma addProfile_valid: "selection_valid (addProfile st)"
  by (simp add: selection_valid_def addProfile_def)

lemma removeProfile_length:
  "length (profiles (removeProfile st)) =
     (if 1 < length (profiles st) \<and> 0 \<le> activeProfileIndex st \<and>
         activeProfileIndex st < int (length (profiles st))
      then length (profiles st) - 1 else length (profiles st))"
  by (simp add: removeProfile_def length_filter_enumerate)

lemma removeProfile_valid:
  assumes "selection_valid st"
  shows "selection_valid (removeProfile st)"
proof (cases "length (profiles st) \<le> 1")
  case True
  with assms show ?thesis by (simp add: removeProfile_def)
next
  case False
  with assms have len: "length (profiles (removeProfile st)) = length (profiles st) - 1"
    by (simp add: removeProfile_length selection_valid_def)
  have idx: "activeProfileIndex (removeProfile st) = max 0 (activeProfileIndex st - 1)"
    using False by (simp add: removeProfile_def)
  from assms False len idx show ?thesis
    unfolding selection_valid_def by (auto simp flip: length_greater_0_conv)
qed

lemma run_ops_valid: "selection_valid st \<Longrightarrow> selection_valid (run_ops ops st)"
proof (induction ops arbitrary: st)
  case Nil
  then show ?case by simp
next
  case (Cons op ops)
  then show ?case by (cases op) (simp_all add: addProfile_valid removeProfile_valid)
qed

lemma initial_valid: "selection_valid initial_state"
  by (simp add: selection_valid_def initial_state_def initialProfiles_def)

lemma toLocalProfile_fields:
  "LocalProfile.name (toLocalProfile q) = ProviderProfilePayload.name q"
  "LocalProfile.provider (toLocalProfile q) = ProviderProfilePayload.provider q"
  "baseUrl (toLocalProfile q) = base_url q"
  "apiKey (toLocalProfile q) = api_key q"
  "LocalProfile.model (toLocalProfile q) = ProviderProfilePayload.model q"
  "LocalProfile.enabled (toLocalProfile q) = ProviderProfilePayload.enabled q"
  by (simp_all add: toLocalProfile_def)

lemma toPayload_fields:
  "ProviderProfilePayload.name (toPayload p) = LocalProfile.name p"
  "ProviderProfilePayload.provider (toPayload p) = LocalProfile.provider p"
  "base_url (toPayload p) = baseUrl p"
  "api_key (toPayload p) = apiKey p"
  "ProviderProfilePayload.model (toPayload p) = LocalProfile.model p"
  "ProviderProfilePayload.enabled (toPayload p) = LocalProfile.enabled p"
  by (simp_all add: toPayload_def)

lemma save_call:
  "snd (handleSaveProfiles (Some g) st c) =
     snd (g ''save_profiles''
            [(''passphrase'', JString (passphrase st)),
             (''profiles'', JProfiles (map toPayload (profiles st)))] c)"
  by (simp add: handleSaveProfiles_def invokeTauri_def Let_def split: prod.splits sum.splits)

lemma addProfile_selects_new:
  "profiles (addProfile st) ! nat (activeProfileIndex (addProfile st)) = last (profiles (addProfile st))"
  by (simp add: addProfile_def)

lemma removeProfile_single: "length (profiles st) = 1 \<Longrightarrow> removeProfile st = st"
  by (simp add: removeProfile_def)

lemma removeProfile_removes_active:
  assumes "selection_valid st" and "1 < length (profiles st)"
  shows "profiles (removeProfile st) =
           take (nat (activeProfileIndex st)) (profiles st) @
           drop (Suc (nat (activeProfileIndex st))) (profiles st)"
proof -
  from assms(1) have k: "nat (activeProfileIndex st) < length (profiles st)"
    and a: "activeProfileIndex st = int (0 + nat (activeProfileIndex st))"
    by (simp_all add: selection_valid_def nat_less_iff)
  from assms(2) have "profiles (removeProfile st) =
      map snd (filter (\<lambda>(index, _). int index \<noteq> activeProfileIndex st) (enumerate 0 (profiles st)))"
    by (simp add: removeProfile_def)
  also have "\<dots> = map snd (filter (\<lambda>(index, _). int index \<noteq> int (0 + nat (activeProfileIndex st))) (enumerate 0 (profiles st)))"
    using a by simp
  also have "\<dots> = take (nat (activeProfileIndex st)) (profiles st) @
           drop (Suc (nat (activeProfileIndex st))) (profiles st)"
    by (rule remove_at_enumerate [OF k])
  finally show ?thesis .
qed

lemma load_message:
  "statusMessage (fst (handleLoadProfiles runtime st b)) =
     (case fst (invokeTauri runtime ''load_profiles'' [(''passphrase'', JString (passphrase st))] b) of
        Inl (ErrorObject message) \<Rightarrow> message
      | Inl (OtherValue _) \<Rightarrow> ''Failed to load profiles from encrypted store.''
      | Inr loaded \<Rightarrow>
          if loaded = [] then ''No encrypted profiles found. Save one to create your settings vault.''
          else ''Loaded '' @ show_nat (length loaded) @ '' encrypted profile(s).'')"
  by (simp add: handleLoadProfiles_def Let_def split: prod.splits sum.splits thrown.splits)

lemma save_message:
  "statusMessage (fst (handleSaveProfiles runtime st b)) =
     (case fst (invokeTauri runtime ''save_profiles''
             [(''passphrase'', JString (passphrase st)),
              (''profiles'', JProfiles (map toPayload (profiles st)))] b) of
        Inl (ErrorObject message) \<Rightarrow> message
      | Inl (OtherValue _) \<Rightarrow> ''Failed to save profiles into encrypted store.''
      | Inr _ \<Rightarrow> ''Saved '' @ show_nat (length (profiles st)) @ '' profile(s) to encrypted storage.'')"
  by (simp add: handleSaveProfiles_def Let_def split: prod.splits sum.splits thrown.splits)

lemma load_tone:
  "statusTone (fst (handleLoadProfiles runtime st b)) =
     (case fst (invokeTauri runtime ''load_profiles'' [(''passphrase'', JString (passphrase st))] b) of
        Inl _ \<Rightarrow> ToneError
      | Inr loaded \<Rightarrow> if loaded = [] then ToneInfo else ToneSuccess)"
  by (simp add: handleLoadProfiles_def Let_def split: prod.splits sum.splits)

lemma save_tone:
  "statusTone (fst (handleSaveProfiles runtime st b)) =
     (case fst (invokeTauri runtime ''save_profiles''
             [(''passphrase'', JString (passphrase st)),
              (''profiles'', JProfiles (map toPayload (profiles st)))] b) of
        Inl _ \<Rightarrow> ToneError
      | Inr _ \<Rightarrow> ToneSuccess)"
  by (simp add: handleSaveProfiles_def Let_def split: prod.splits sum.splits)

lemma redact_state_length:
  assumes "redact_state st1 = redact_state st2"
  shows "length (profiles st1) = length (profiles st2)"
proof -
  from assms have "profiles (redact_state st1) = profiles (redact_state st2)" by simp
  then have "map redact_profile (profiles st1) = map redact_profile (profiles st2)"
    by (simp add: redact_state_def)
  then show ?thesis by (rule map_eq_imp_length_eq)
qed

lemma secret_state_simps:
  "passphrase (secret_state pass key) = pass"
  "profiles (secret_state pass key) = map (\<lambda>p. p\<lparr>apiKey := key\<rparr>) initialProfiles"
  "redact_state (secret_state pass key) = initial_state"
  by (simp_all add: secret_state_def setProfileField_def initial_state_def initialProfiles_def
      redact_state_def redact_profile_def)

lemma list_all_map_enumerate:
  assumes "list_all P xs" and "\<And>x. P x \<Longrightarrow> P (f x)"
  shows "list_all P (map (\<lambda>(index, item). if c index then f item else item) (enumerate n xs))"
  using assms(1)
proof (induction xs arbitrary: n)
  case Nil
  then show ?case by simp
next
  case (Cons x xs)
  then show ?case by (simp add: assms(2))
qed

lemma list_all_filter_enumerate:
  "list_all P xs \<Longrightarrow> list_all P (map snd (filter Q (enumerate n xs)))"
  by (induction xs arbitrary: n) simp_all

lemma addProfile_selectable: "providers_selectable st \<Longrightarrow> providers_selectable (addProfile st)"
  by (simp add: providers_selectable_def addProfile_def providerChoices_def)

lemma removeProfile_selectable: "providers_selectable st \<Longrightarrow> providers_selectable (removeProfile st)"
  by (simp add: providers_selectable_def removeProfile_def list_all_filter_enumerate)

lemma setProfileField_selectable:
  assumes "providers_selectable st"
    and "case kv of FieldProvider v \<Rightarrow> v \<in> set (map fst providerChoices) | _ \<Rightarrow> True"
  shows "providers_selectable (setProfileField kv st)"
proof -
  have "LocalProfile.provider p \<in> set (map fst providerChoices) \<Longrightarrow>
        LocalProfile.provider (assign_field kv p) \<in> set (map fst providerChoices)" for p
    using assms(2) by (cases kv) simp_all
  with assms(1) show ?thesis
    unfolding providers_selectable_def setProfileField_def
    by (simp add: list_all_map_enumerate)
qed

lemma handleLoadProfiles_selectable:
  assumes "providers_selectable st"
    and "case fst (invokeTauri rt ''load_profiles'' [(''passphrase'', JString (passphrase st))] b) of
           Inl _ \<Rightarrow> True
         | Inr loaded \<Rightarrow>
             list_all (\<lambda>q. ProviderProfilePayload.provider q \<in> set (map fst providerChoices)) loaded"
  shows "providers_selectable (fst (handleLoadProfiles rt st b))"
  using assms
  by (auto simp: providers_selectable_def handleLoadProfiles_def Let_def list_all_iff toLocalProfile_fields
           split: prod.splits sum.splits)

lemma handleSaveProfiles_profiles: "profiles (fst (handleSaveProfiles rs st c)) = profiles st"
  by (simp add: handleSaveProfiles_def Let_def split: prod.splits sum.splits)

lemma vault_round_trip:
  assumes "primitives_sound P" and "vault_save P pass s n ps = Inr env"
  shows "vault_load P pass env = Inr ps"
proof -
  from assms(2) obtain pt where pt: "serialize P ps = Some pt"
    and env: "env = \<lparr> version = format_version P, salt = s, nonce = n,
                     ciphertext = fst (encrypt P (derive_key P pass s) n pt),
                     tag = snd (encrypt P (derive_key P pass s) n pt) \<rparr>"
    by (auto simp: vault_save_def split: option.splits prod.splits)
  from assms(1) have dec: "decrypt P (derive_key P pass s) n
        (fst (encrypt P (derive_key P pass s) n pt)) (snd (encrypt P (derive_key P pass s) n pt)) = Some pt"
    and des: "deserialize P pt = Some ps"
    using pt by (simp_all add: primitives_sound_def)
  show ?thesis unfolding env by (simp add: vault_load_def dec des)
qed

lemma vault_save_succeeds:
  "serialize P ps \<noteq> None \<Longrightarrow> \<exists>env. vault_save P pass s n ps = Inr env"
  by (auto simp: vault_save_def split: option.splits prod.splits)

lemma save_profiles_stored:
  assumes "fst (save_profiles P s n pass ps blob) = Inr ()"
  shows "distinct (map ProviderProfilePayload.name ps) \<and>
         (\<exists>env. vault_save P pass s n ps = Inr env \<and> snd (save_profiles P s n pass ps blob) = Some env)"
  using assms by (auto simp: save_profiles_def split: if_splits sum.splits)

lemma save_profiles_succeeds:
  assumes "distinct (map ProviderProfilePayload.name ps)" and "serialize P ps \<noteq> None"
  shows "fst (save_profiles P s n pass ps blob) = Inr ()"
  using assms(1) vault_save_succeeds [OF assms(2), of pass s n]
  by (auto simp: save_profiles_def)

lemma toy_primitives_sound: "primitives_sound toy_primitives"
  by (simp add: primitives_sound_def toy_primitives_def)

lemma duplicate_state_names:
  "map LocalProfile.name (profiles duplicate_state) = [''Primary OpenAI'', ''Profile 3'', ''Profile 3'']"
  by (simp add: duplicate_state_def selectProfile_def addProfile_def removeProfile_def
      initial_state_def initialProfiles_def show_nat.simps)
section \<open>The claims\<close>

text \<open>
  Claim C1. For any profile list and any passphrase, loading what was saved yields the
  original list: an envelope that \<^verbatim>\<open>save\<close> produced opens under the same passphrase to the
  list that was sealed; a \<^verbatim>\<open>save_profiles\<close> that returned ok is followed by a
  \<^verbatim>\<open>load_profiles\<close> that returns the same list, and it does return ok for every list with
  distinct names that serialises. The conversions of the settings pane are inverse to each
  other, so no field is lost or altered on the way.
\<close>

theorem save_then_load_round_trip:
  assumes "primitives_sound P"
  shows "(vault_save P pass s n ps = Inr env \<longrightarrow> vault_load P pass env = Inr ps) \<and>
         (fst (save_profiles P s n pass ps blob) = Inr () \<longrightarrow>
            load_profiles P pass (snd (save_profiles P s n pass ps blob)) = Inr ps) \<and>
         (distinct (map ProviderProfilePayload.name ps) \<and> serialize P ps \<noteq> None \<longrightarrow>
            fst (save_profiles P s n pass ps blob) = Inr () \<and>
            load_profiles P pass (snd (save_profiles P s n pass ps blob)) = Inr ps) \<and>
         toLocalProfile (toPayload p) = p \<and>
         toPayload (toLocalProfile q) = q \<and>
         map toLocalProfile (map toPayload locals) = locals"
proof -
  have ops: "load_profiles P pass (snd (save_profiles P s n pass ps blob)) = Inr ps"
    if "fst (save_profiles P s n pass ps blob) = Inr ()"
  proof -
    from save_profiles_stored [OF that] obtain env where
      "vault_save P pass s n ps = Inr env" and "snd (save_profiles P s n pass ps blob) = Some env"
      by blast
    with vault_round_trip [OF assms] show ?thesis by (simp add: load_profiles_def)
  qed
  have ok: "fst (save_profiles P s n pass ps blob) = Inr ()"
    if "distinct (map ProviderProfilePayload.name ps) \<and> serialize P ps \<noteq> None"
    using that by (simp add: save_profiles_succeeds)
  show ?thesis
  proof (intro conjI impI)
    show "vault_load P pass env = Inr ps" if "vault_save P pass s n ps = Inr env"
      using that by (rule vault_round_trip [OF assms])
    show "toLocalProfile (toPayload p) = p" by (rule toLocalProfile_toPayload)
    show "toPayload (toLocalProfile q) = q" by (rule toPayload_toLocalProfile)
    show "map toLocalProfile (map toPayload locals) = locals" by (rule map_toLocalProfile_toPayload)
  qed (simp_all add: ops ok)
qed


theorem save_then_load_round_trip_witness:
  "primitives_sound toy_primitives \<and>
   vault_save toy_primitives ''p@ss'' 7 11 [profileA, profileA] =
     Inr \<lparr> version = 1, salt = 7, nonce = 11, ciphertext = [profileA, profileA],
           tag = ((''p@ss'', 7), 11) \<rparr> \<and>
   vault_load toy_primitives ''p@ss''
     \<lparr> version = 1, salt = 7, nonce = 11, ciphertext = [profileA, profileA],
       tag = ((''p@ss'', 7), 11) \<rparr> = Inr [profileA, profileA] \<and>
   distinct (map ProviderProfilePayload.name [profileA]) \<and>
   serialize toy_primitives [profileA] \<noteq> None \<and>
   fst (save_profiles toy_primitives 7 11 ''p@ss'' [profileA] None) = Inr () \<and>
   load_profiles toy_primitives ''p@ss'' (snd (save_profiles toy_primitives 7 11 ''p@ss'' [profileA] None))
     = Inr [profileA] \<and>
   load_profiles toy_primitives ''wrong'' (snd (save_profiles toy_primitives 7 11 ''p@ss'' [profileA] None))
     = Inl (Crypto WrongPassphraseOrCorruptData)"
proof -
  have snd: "primitives_sound toy_primitives" by (rule toy_primitives_sound)
  have v: "vault_save toy_primitives ''p@ss'' 7 11 [profileA, profileA] =
     Inr \<lparr> version = 1, salt = 7, nonce = 11, ciphertext = [profileA, profileA],
           tag = ((''p@ss'', 7), 11) \<rparr>"
    by (simp add: vault_save_def toy_primitives_def)
  have d: "distinct (map ProviderProfilePayload.name [profileA]) \<and> serialize toy_primitives [profileA] \<noteq> None"
    by (simp add: toy_primitives_def)
  have w: "load_profiles toy_primitives ''wrong'' (snd (save_profiles toy_primitives 7 11 ''p@ss'' [profileA] None))
     = Inl (Crypto WrongPassphraseOrCorruptData)"
    by (simp add: load_profiles_def save_profiles_def vault_save_def vault_load_def toy_primitives_def)
  note t1 = save_then_load_round_trip [OF snd, of "''p@ss''" 7 11 "[profileA, profileA]"
      "\<lparr> version = 1, salt = 7, nonce = 11, ciphertext = [profileA, profileA], tag = ((''p@ss'', 7), 11) \<rparr>"]
  note t2 = save_then_load_round_trip [OF snd, of "''p@ss''" 7 11 "[profileA]" _ None]
  from t1 v have a: "vault_load toy_primitives ''p@ss''
     \<lparr> version = 1, salt = 7, nonce = 11, ciphertext = [profileA, profileA],
       tag = ((''p@ss'', 7), 11) \<rparr> = Inr [profileA, profileA]" by blast
  from t2 d have b: "fst (save_profiles toy_primitives 7 11 ''p@ss'' [profileA] None) = Inr ()"
    by blast
  from t2 b have c: "load_profiles toy_primitives ''p@ss'' (snd (save_profiles toy_primitives 7 11 ''p@ss'' [profileA] None))
     = Inr [profileA]" by blast
  from snd v a d b c w show ?thesis by blast
qed

text \<open>
  Claim C2, as stated, fails. Two runs that differ only in the passphrase show different
  status messages: against a stored vault the right passphrase loads and a wrong one is
  rejected, and a backend whose \<^verbatim>\<open>Error\<close> message quotes the passphrase has it shown, since
  the handlers display \<^verbatim>\<open>error.message\<close> unchanged.
\<close>

theorem status_message_depends_on_passphrase:
  "redact_state (secret_state ''p@ss'' ''k1'') = redact_state (secret_state ''wrong'' ''k1'') \<and>
   statusMessage (fst (handleLoadProfiles (Some (load_command toy_primitives)) (secret_state ''p@ss'' ''k1'')
       (snd (save_profiles toy_primitives 7 11 ''p@ss'' [profileA] None)))) =
     ''Loaded 1 encrypted profile(s).'' \<and>
   statusMessage (fst (handleLoadProfiles (Some (load_command toy_primitives)) (secret_state ''wrong'' ''k1'')
       (snd (save_profiles toy_primitives 7 11 ''p@ss'' [profileA] None)))) =
     ''Failed to load profiles from encrypted store.'' \<and>
   statusMessage (fst (handleLoadProfiles (Some quoting) (secret_state ''p@ss'' ''k1'') ())) =
     ''wrong passphrase: p@ss'' \<and>
   statusMessage (fst (handleLoadProfiles (Some quoting) (secret_state ''wrong'' ''k1'') ())) =
     ''wrong passphrase: wrong'' \<and>
   sublist ''p@ss'' (statusMessage (fst (handleSaveProfiles (Some (quoting :: (unit, unit) invoke)) (secret_state ''p@ss'' ''k1'') ())))"
proof -
  have blob: "snd (save_profiles toy_primitives 7 11 ''p@ss'' [profileA] None) =
      Some \<lparr> version = 1, salt = 7, nonce = 11, ciphertext = [profileA], tag = ((''p@ss'', 7), 11) \<rparr>"
    by (simp add: save_profiles_def vault_save_def toy_primitives_def)
  have a: "redact_state (secret_state ''p@ss'' ''k1'') = redact_state (secret_state ''wrong'' ''k1'')"
    by (simp add: secret_state_simps)
  have b: "statusMessage (fst (handleLoadProfiles (Some (load_command toy_primitives)) (secret_state ''p@ss'' ''k1'')
       (snd (save_profiles toy_primitives 7 11 ''p@ss'' [profileA] None)))) =
     ''Loaded 1 encrypted profile(s).''"
    unfolding blob load_message
    by (simp add: invokeTauri_def load_command_def load_profiles_def vault_load_def toy_primitives_def
        secret_state_simps show_nat.simps)
  have c: "statusMessage (fst (handleLoadProfiles (Some (load_command toy_primitives)) (secret_state ''wrong'' ''k1'')
       (snd (save_profiles toy_primitives 7 11 ''p@ss'' [profileA] None)))) =
     ''Failed to load profiles from encrypted store.''"
    unfolding blob load_message
    by (simp add: invokeTauri_def load_command_def load_profiles_def vault_load_def toy_primitives_def
        secret_state_simps)
  have d: "statusMessage (fst (handleLoadProfiles (Some quoting) (secret_state ''p@ss'' ''k1'') ())) =
     ''wrong passphrase: p@ss''"
    "statusMessage (fst (handleLoadProfiles (Some quoting) (secret_state ''wrong'' ''k1'') ())) =
     ''wrong passphrase: wrong''"
    unfolding load_message
    by (simp_all add: invokeTauri_def quoting_def secret_state_simps)
  have e: "statusMessage (fst (handleSaveProfiles (Some (quoting :: (unit, unit) invoke)) (secret_state ''p@ss'' ''k1'') ())) =
     ''wrong passphrase: p@ss''"
    unfolding save_message
    by (simp add: invokeTauri_def quoting_def secret_state_simps)
  have "sublist ''p@ss'' ''wrong passphrase: p@ss''" by code_simp
  then have f: "sublist ''p@ss''
      (statusMessage (fst (handleSaveProfiles (Some (quoting :: (unit, unit) invoke)) (secret_state ''p@ss'' ''k1'') ())))"
    unfolding e .
  from a b c d f show ?thesis by blast
qed

text \<open>
  Claim C2, amended. The status message is determined by the outcome of the backend call:
  on success it is a fixed text that holds only a number of profiles, on failure it is the
  message of the thrown \<^verbatim>\<open>Error\<close>, unchanged, or a fixed text. Hence two runs that differ
  only in the API keys and in the passphrase, and whose backend calls have the same outcome up
  to API keys, show the same status message; the handlers themselves put no API key, no
  passphrase and no derived key into it.
\<close>

theorem status_message_determined_by_outcome:
  assumes "redact_state st1 = redact_state st2"
  shows "(redact_loaded (fst (invokeTauri rt1 ''load_profiles'' [(''passphrase'', JString (passphrase st1))] b1)) =
          redact_loaded (fst (invokeTauri rt2 ''load_profiles'' [(''passphrase'', JString (passphrase st2))] b2))
          \<longrightarrow> statusMessage (fst (handleLoadProfiles rt1 st1 b1)) = statusMessage (fst (handleLoadProfiles rt2 st2 b2))) \<and>
         (redact_saved (fst (invokeTauri rs1 ''save_profiles''
             [(''passphrase'', JString (passphrase st1)),
              (''profiles'', JProfiles (map toPayload (profiles st1)))] c1)) =
          redact_saved (fst (invokeTauri rs2 ''save_profiles''
             [(''passphrase'', JString (passphrase st2)),
              (''profiles'', JProfiles (map toPayload (profiles st2)))] c2))
          \<longrightarrow> statusMessage (fst (handleSaveProfiles rs1 st1 c1)) = statusMessage (fst (handleSaveProfiles rs2 st2 c2))) \<and>
         statusMessage (fst (handleLoadProfiles rt1 st1 b1)) =
           (case fst (invokeTauri rt1 ''load_profiles'' [(''passphrase'', JString (passphrase st1))] b1) of
              Inl (ErrorObject message) \<Rightarrow> message
            | Inl (OtherValue _) \<Rightarrow> ''Failed to load profiles from encrypted store.''
            | Inr loaded \<Rightarrow>
                if loaded = [] then ''No encrypted profiles found. Save one to create your settings vault.''
                else ''Loaded '' @ show_nat (length loaded) @ '' encrypted profile(s).'') \<and>
         statusMessage (fst (handleSaveProfiles rs1 st1 c1)) =
           (case fst (invokeTauri rs1 ''save_profiles''
                   [(''passphrase'', JString (passphrase st1)),
                    (''profiles'', JProfiles (map toPayload (profiles st1)))] c1) of
              Inl (ErrorObject message) \<Rightarrow> message
            | Inl (OtherValue _) \<Rightarrow> ''Failed to save profiles into encrypted store.''
            | Inr _ \<Rightarrow> ''Saved '' @ show_nat (length (profiles st1)) @ '' profile(s) to encrypted storage.'')"
proof (intro conjI impI)
  assume "redact_loaded (fst (invokeTauri rt1 ''load_profiles'' [(''passphrase'', JString (passphrase st1))] b1)) =
          redact_loaded (fst (invokeTauri rt2 ''load_profiles'' [(''passphrase'', JString (passphrase st2))] b2))"
  then show "statusMessage (fst (handleLoadProfiles rt1 st1 b1)) = statusMessage (fst (handleLoadProfiles rt2 st2 b2))"
    unfolding load_message redact_loaded_def
    by (auto split: sum.splits thrown.splits dest: map_eq_imp_length_eq)
next
  assume "redact_saved (fst (invokeTauri rs1 ''save_profiles''
             [(''passphrase'', JString (passphrase st1)),
              (''profiles'', JProfiles (map toPayload (profiles st1)))] c1)) =
          redact_saved (fst (invokeTauri rs2 ''save_profiles''
             [(''passphrase'', JString (passphrase st2)),
              (''profiles'', JProfiles (map toPayload (profiles st2)))] c2))"
  then show "statusMessage (fst (handleSaveProfiles rs1 st1 c1)) = statusMessage (fst (handleSaveProfiles rs2 st2 c2))"
    unfolding save_message redact_saved_def
    using redact_state_length [OF assms]
    by (auto split: sum.splits thrown.splits)
qed (rule load_message, rule save_message)

theorem status_message_determined_by_outcome_witness:
  "redact_state (secret_state ''p@ss'' ''k1'') = redact_state (secret_state ''hunter2'' ''k2'') \<and>
   redact_loaded (fst (invokeTauri (Some (resolve_with [profileA])) ''load_profiles''
       [(''passphrase'', JString (passphrase (secret_state ''p@ss'' ''k1'')))] ())) =
   redact_loaded (fst (invokeTauri (Some (resolve_with [profileA\<lparr>api_key := ''k2''\<rparr>])) ''load_profiles''
       [(''passphrase'', JString (passphrase (secret_state ''hunter2'' ''k2'')))] ())) \<and>
   statusMessage (fst (handleLoadProfiles (Some (resolve_with [profileA])) (secret_state ''p@ss'' ''k1'') ())) =
   statusMessage (fst (handleLoadProfiles (Some (resolve_with [profileA\<lparr>api_key := ''k2''\<rparr>]))
                         (secret_state ''hunter2'' ''k2'') ())) \<and>
   redact_saved (fst (invokeTauri (Some (resolve_with ())) ''save_profiles''
       [(''passphrase'', JString (passphrase (secret_state ''p@ss'' ''k1''))),
        (''profiles'', JProfiles (map toPayload (profiles (secret_state ''p@ss'' ''k1''))))] ())) =
   redact_saved (fst (invokeTauri (Some (resolve_with ())) ''save_profiles''
       [(''passphrase'', JString (passphrase (secret_state ''hunter2'' ''k2''))),
        (''profiles'', JProfiles (map toPayload (profiles (secret_state ''hunter2'' ''k2''))))] ())) \<and>
   statusMessage (fst (handleSaveProfiles (Some (resolve_with ())) (secret_state ''p@ss'' ''k1'') ())) =
   statusMessage (fst (handleSaveProfiles (Some (resolve_with ())) (secret_state ''hunter2'' ''k2'') ())) \<and>
   statusMessage (fst (handleLoadProfiles (Some (resolve_with [profileA])) (secret_state ''p@ss'' ''k1'') ())) =
     ''Loaded 1 encrypted profile(s).'' \<and>
   statusMessage (fst (handleSaveProfiles (Some (resolve_with ())) (secret_state ''p@ss'' ''k1'') ())) =
     ''Saved 1 profile(s) to encrypted storage.''"
proof -
  have s: "redact_state (secret_state ''p@ss'' ''k1'') = redact_state (secret_state ''hunter2'' ''k2'')"
    by (simp add: secret_state_simps)
  have l: "redact_loaded (fst (invokeTauri (Some (resolve_with [profileA])) ''load_profiles''
       [(''passphrase'', JString (passphrase (secret_state ''p@ss'' ''k1'')))] ())) =
   redact_loaded (fst (invokeTauri (Some (resolve_with [profileA\<lparr>api_key := ''k2''\<rparr>])) ''load_profiles''
       [(''passphrase'', JString (passphrase (secret_state ''hunter2'' ''k2'')))] ()))"
    by (simp add: invokeTauri_def resolve_with_def redact_loaded_def redact_payload_def)
  have v: "redact_saved (fst (invokeTauri (Some (resolve_with ())) ''save_profiles''
       [(''passphrase'', JString (passphrase (secret_state ''p@ss'' ''k1''))),
        (''profiles'', JProfiles (map toPayload (profiles (secret_state ''p@ss'' ''k1''))))] ())) =
   redact_saved (fst (invokeTauri (Some (resolve_with ())) ''save_profiles''
       [(''passphrase'', JString (passphrase (secret_state ''hunter2'' ''k2''))),
        (''profiles'', JProfiles (map toPayload (profiles (secret_state ''hunter2'' ''k2''))))] ()))"
    by (simp add: invokeTauri_def resolve_with_def redact_saved_def)
  note t = status_message_determined_by_outcome [OF s,
      of "Some (resolve_with [profileA])" "()" "Some (resolve_with [profileA\<lparr>api_key := ''k2''\<rparr>])" "()"
         "Some (resolve_with ())" "()" "Some (resolve_with ())" "()"]
  from t l have a: "statusMessage (fst (handleLoadProfiles (Some (resolve_with [profileA])) (secret_state ''p@ss'' ''k1'') ())) =
   statusMessage (fst (handleLoadProfiles (Some (resolve_with [profileA\<lparr>api_key := ''k2''\<rparr>]))
                         (secret_state ''hunter2'' ''k2'') ()))" by blast
  from t v have b: "statusMessage (fst (handleSaveProfiles (Some (resolve_with ())) (secret_state ''p@ss'' ''k1'') ())) =
   statusMessage (fst (handleSaveProfiles (Some (resolve_with ())) (secret_state ''hunter2'' ''k2'') ()))" by blast
  from t have "statusMessage (fst (handleLoadProfiles (Some (resolve_with [profileA])) (secret_state ''p@ss'' ''k1'') ())) =
           (case fst (invokeTauri (Some (resolve_with [profileA])) ''load_profiles''
                        [(''passphrase'', JString (passphrase (secret_state ''p@ss'' ''k1'')))] ()) of
              Inl (ErrorObject message) \<Rightarrow> message
            | Inl (OtherValue _) \<Rightarrow> ''Failed to load profiles from encrypted store.''
            | Inr loaded \<Rightarrow>
                if loaded = [] then ''No encrypted profiles found. Save one to create your settings vault.''
                else ''Loaded '' @ show_nat (length loaded) @ '' encrypted profile(s).'')" by blast
  then have c: "statusMessage (fst (handleLoadProfiles (Some (resolve_with [profileA])) (secret_state ''p@ss'' ''k1'') ())) =
     ''Loaded 1 encrypted profile(s).''"
    by (simp add: invokeTauri_def resolve_with_def show_nat.simps)
  from t have "statusMessage (fst (handleSaveProfiles (Some (resolve_with ())) (secret_state ''p@ss'' ''k1'') ())) =
           (case fst (invokeTauri (Some (resolve_with ())) ''save_profiles''
                   [(''passphrase'', JString (passphrase (secret_state ''p@ss'' ''k1''))),
                    (''profiles'', JProfiles (map toPayload (profiles (secret_state ''p@ss'' ''k1''))))] ()) of
              Inl (ErrorObject message) \<Rightarrow> message
            | Inl (OtherValue _) \<Rightarrow> ''Failed to save profiles into encrypted store.''
            | Inr _ \<Rightarrow> ''Saved '' @ show_nat (length (profiles (secret_state ''p@ss'' ''k1''))) @
                        '' profile(s) to encrypted storage.'')" by blast
  then have d: "statusMessage (fst (handleSaveProfiles (Some (resolve_with ())) (secret_state ''p@ss'' ''k1'') ())) =
     ''Saved 1 profile(s) to encrypted storage.''"
    by (simp add: invokeTauri_def resolve_with_def show_nat.simps secret_state_simps initialProfiles_def)
  from s l a v b c d show ?thesis by blast
qed

text \<open>
  Claim C3. \<^verbatim>\<open>save_profiles\<close> rejects every list in which two profiles share a name and
  leaves the stored vault as it was; a save that returns ok had pairwise distinct names. The
  settings pane forwards names unchanged, so a state with a repeated name is rejected too.
\<close>

theorem duplicate_names_rejected:
  "(\<not> distinct (map ProviderProfilePayload.name ps) \<longrightarrow>
      save_profiles P s n pass ps blob = (Inl DuplicateProfileName, blob)) \<and>
   (fst (save_profiles P s n pass ps blob) = Inr () \<longrightarrow> distinct (map ProviderProfilePayload.name ps)) \<and>
   (\<not> distinct (map LocalProfile.name (profiles st)) \<longrightarrow>
      save_profiles P s n (passphrase st) (map toPayload (profiles st)) blob =
        (Inl DuplicateProfileName, blob))"
proof -
  have names: "map ProviderProfilePayload.name (map toPayload (profiles st)) = map LocalProfile.name (profiles st)"
    by (simp add: toPayload_fields comp_def)
  have rej: "save_profiles P s n pw qs blob = (Inl DuplicateProfileName, blob)"
    if "\<not> distinct (map ProviderProfilePayload.name qs)" for pw qs
    using that by (simp add: save_profiles_def)
  have acc: "distinct (map ProviderProfilePayload.name ps)"
    if "fst (save_profiles P s n pass ps blob) = Inr ()"
    using that by (simp add: save_profiles_def split: if_splits)
  show ?thesis
  proof (intro conjI impI)
    show "save_profiles P s n (passphrase st) (map toPayload (profiles st)) blob =
        (Inl DuplicateProfileName, blob)" if "\<not> distinct (map LocalProfile.name (profiles st))"
      using that by (intro rej) (simp only: names, simp)
  qed (simp_all add: rej acc)
qed

theorem duplicate_names_rejected_witness:
  "\<not> distinct (map ProviderProfilePayload.name [profileA, profileA]) \<and>
   save_profiles toy_primitives 7 11 ''p@ss'' [profileA, profileA] None = (Inl DuplicateProfileName, None) \<and>
   fst (save_profiles toy_primitives 7 11 ''p@ss'' [profileA] None) = Inr () \<and>
   distinct (map ProviderProfilePayload.name [profileA]) \<and>
   \<not> distinct (map LocalProfile.name (profiles duplicate_state)) \<and>
   save_profiles toy_primitives 7 11 (passphrase duplicate_state) (map toPayload (profiles duplicate_state))
      (snd (save_profiles toy_primitives 7 11 ''p@ss'' [profileA] None)) =
     (Inl DuplicateProfileName, snd (save_profiles toy_primitives 7 11 ''p@ss'' [profileA] None))"
proof -
  have d1: "\<not> distinct (map ProviderProfilePayload.name [profileA, profileA])" by simp
  have ok: "fst (save_profiles toy_primitives 7 11 ''p@ss'' [profileA] None) = Inr ()"
    by (simp add: save_profiles_def vault_save_def toy_primitives_def)
  have d3: "\<not> distinct (map LocalProfile.name (profiles duplicate_state))"
    by (simp add: duplicate_state_names)
  note t = duplicate_names_rejected
  from t [of "[profileA, profileA]" toy_primitives 7 11 "''p@ss''" None] d1
  have a: "save_profiles toy_primitives 7 11 ''p@ss'' [profileA, profileA] None = (Inl DuplicateProfileName, None)"
    by blast
  from t [of "[profileA]" toy_primitives 7 11 "''p@ss''" None] ok
  have b: "distinct (map ProviderProfilePayload.name [profileA])" by blast
  from t [of _ toy_primitives 7 11 _ "snd (save_profiles toy_primitives 7 11 ''p@ss'' [profileA] None)" duplicate_state] d3
  have c: "save_profiles toy_primitives 7 11 (passphrase duplicate_state) (map toPayload (profiles duplicate_state))
      (snd (save_profiles toy_primitives 7 11 ''p@ss'' [profileA] None)) =
     (Inl DuplicateProfileName, snd (save_profiles toy_primitives 7 11 ''p@ss'' [profileA] None))"
    by blast
  from d1 a ok b d3 c show ?thesis by blast
qed

text \<open>
  Claim C4. When \<^verbatim>\<open>load_profiles\<close> resolves with a non-empty list, the handler replaces the
  whole profile list by the returned profiles, converted field for field (name, provider,
  base_url to baseUrl, api_key to apiKey, model, enabled) and in the returned order, and
  selects the first profile.
\<close>

theorem load_replaces_profiles:
  assumes "fst (invokeTauri runtime ''load_profiles'' [(''passphrase'', JString (passphrase st))] b) = Inr loaded"
    and "loaded \<noteq> []"
  shows "fst (handleLoadProfiles runtime st b) =
           st\<lparr>profiles := map toLocalProfile loaded,
              activeProfileIndex := 0,
              statusTone := ToneSuccess,
              statusMessage := ''Loaded '' @ show_nat (length loaded) @ '' encrypted profile(s).'',
              isWorking := False\<rparr> \<and>
         activeProfileIndex (fst (handleLoadProfiles runtime st b)) = 0 \<and>
         length (profiles (fst (handleLoadProfiles runtime st b))) = length loaded \<and>
         map LocalProfile.name (profiles (fst (handleLoadProfiles runtime st b))) = map ProviderProfilePayload.name loaded \<and>
         map LocalProfile.provider (profiles (fst (handleLoadProfiles runtime st b))) = map ProviderProfilePayload.provider loaded \<and>
         map baseUrl (profiles (fst (handleLoadProfiles runtime st b))) = map base_url loaded \<and>
         map apiKey (profiles (fst (handleLoadProfiles runtime st b))) = map api_key loaded \<and>
         map LocalProfile.model (profiles (fst (handleLoadProfiles runtime st b))) = map ProviderProfilePayload.model loaded \<and>
         map LocalProfile.enabled (profiles (fst (handleLoadProfiles runtime st b))) = map ProviderProfilePayload.enabled loaded \<and>
         profiles (fst (handleLoadProfiles runtime st b)) ! nat (activeProfileIndex (fst (handleLoadProfiles runtime st b)))
           = toLocalProfile (hd loaded)"
proof -
  obtain b' where "invokeTauri runtime ''load_profiles'' [(''passphrase'', JString (passphrase st))] b = (Inr loaded, b')"
    using assms(1) by (cases "invokeTauri runtime ''load_profiles'' [(''passphrase'', JString (passphrase st))] b") simp
  from load_nonempty [OF this assms(2)]
  have eq: "fst (handleLoadProfiles runtime st b) =
           st\<lparr>profiles := map toLocalProfile loaded,
              activeProfileIndex := 0,
              statusTone := ToneSuccess,
              statusMessage := ''Loaded '' @ show_nat (length loaded) @ '' encrypted profile(s).'',
              isWorking := False\<rparr>" by simp
  have hd0: "map toLocalProfile loaded ! 0 = toLocalProfile (hd loaded)"
    using assms(2) by (cases loaded) simp_all
  show ?thesis
    unfolding eq by (simp add: toLocalProfile_fields hd0 comp_def)
qed

theorem load_replaces_profiles_witness:
  "fst (invokeTauri (Some (resolve_with [profileA, profileA\<lparr>ProviderProfilePayload.name := ''home''\<rparr>])) ''load_profiles''
         [(''passphrase'', JString (passphrase initial_state))] ()) = Inr [profileA, profileA\<lparr>ProviderProfilePayload.name := ''home''\<rparr>] \<and>
   [profileA, profileA\<lparr>ProviderProfilePayload.name := ''home''\<rparr>] \<noteq> [] \<and>
   map LocalProfile.name (profiles (fst (handleLoadProfiles
        (Some (resolve_with [profileA, profileA\<lparr>ProviderProfilePayload.name := ''home''\<rparr>])) initial_state ()))) = [''work'', ''home''] \<and>
   activeProfileIndex (fst (handleLoadProfiles
        (Some (resolve_with [profileA, profileA\<lparr>ProviderProfilePayload.name := ''home''\<rparr>])) initial_state ())) = 0"
proof -
  have h: "fst (invokeTauri (Some (resolve_with [profileA, profileA\<lparr>ProviderProfilePayload.name := ''home''\<rparr>])) ''load_profiles''
         [(''passphrase'', JString (passphrase initial_state))] ()) = Inr [profileA, profileA\<lparr>ProviderProfilePayload.name := ''home''\<rparr>]"
    by (simp add: invokeTauri_def resolve_with_def)
  have n: "[profileA, profileA\<lparr>ProviderProfilePayload.name := ''home''\<rparr>] \<noteq> []" by simp
  from load_replaces_profiles [OF h n]
  have "map LocalProfile.name (profiles (fst (handleLoadProfiles
        (Some (resolve_with [profileA, profileA\<lparr>ProviderProfilePayload.name := ''home''\<rparr>])) initial_state ()))) =
        map ProviderProfilePayload.name [profileA, profileA\<lparr>ProviderProfilePayload.name := ''home''\<rparr>]"
    and z: "activeProfileIndex (fst (handleLoadProfiles
        (Some (resolve_with [profileA, profileA\<lparr>ProviderProfilePayload.name := ''home''\<rparr>])) initial_state ())) = 0"
    by blast+
  then have "map LocalProfile.name (profiles (fst (handleLoadProfiles
        (Some (resolve_with [profileA, profileA\<lparr>ProviderProfilePayload.name := ''home''\<rparr>])) initial_state ()))) = [''work'', ''home'']"
    by (simp add: profileA_def)
  with h n z show ?thesis by blast
qed

text \<open>
  Claim C5. Saving calls the backend exactly once with the command \<^verbatim>\<open>save_profiles\<close>, the
  current passphrase and the whole current profile list: one payload per profile, in the same
  order, carrying the six fields name, provider, base_url, api_key, model and enabled.
\<close>

theorem save_passes_all_profiles:
  "snd (handleSaveProfiles (Some f) st b) =
     snd (f ''save_profiles''
            [(''passphrase'', JString (passphrase st)),
             (''profiles'', JProfiles (map toPayload (profiles st)))] b) \<and>
   snd (handleSaveProfiles (Some (recording r)) st calls) =
     calls @ [(''save_profiles'',
               [(''passphrase'', JString (passphrase st)),
                (''profiles'', JProfiles (map toPayload (profiles st)))])] \<and>
   length (map toPayload (profiles st)) = length (profiles st) \<and>
   map ProviderProfilePayload.name (map toPayload (profiles st)) = map LocalProfile.name (profiles st) \<and>
   map ProviderProfilePayload.provider (map toPayload (profiles st)) = map LocalProfile.provider (profiles st) \<and>
   map base_url (map toPayload (profiles st)) = map baseUrl (profiles st) \<and>
   map api_key (map toPayload (profiles st)) = map apiKey (profiles st) \<and>
   map ProviderProfilePayload.model (map toPayload (profiles st)) = map LocalProfile.model (profiles st) \<and>
   map ProviderProfilePayload.enabled (map toPayload (profiles st)) = map LocalProfile.enabled (profiles st)"
proof -
  have rec: "snd (handleSaveProfiles (Some (recording r)) st calls) =
     calls @ [(''save_profiles'',
               [(''passphrase'', JString (passphrase st)),
                (''profiles'', JProfiles (map toPayload (profiles st)))])]"
    unfolding save_call by (simp add: recording_def)
  show ?thesis
    unfolding save_call [of f] rec by (simp add: toPayload_fields comp_def)
qed

text \<open>
  Claim C6, as stated, fails. The provider selector offers a fifth value, \<^verbatim>\<open>cc-switch\<close>,
  and choosing it stores a provider outside the four enumerated kinds; loading stores whatever
  provider string the backend returns.
\<close>

theorem provider_outside_four_kinds:
  "fst (providerChoices ! 4) = ''cc-switch'' \<and>
   map LocalProfile.provider (profiles (setProfileField (FieldProvider ''cc-switch'') initial_state)) = [''cc-switch''] \<and>
   ''cc-switch'' \<notin> set spec_provider_values \<and>
   map LocalProfile.provider
     (profiles (fst (handleLoadProfiles
        (Some (resolve_with [profileA\<lparr>ProviderProfilePayload.provider := ''azure''\<rparr>])) initial_state ()))) = [''azure''] \<and>
   ''azure'' \<notin> set spec_provider_values"
  by (simp add: providerChoices_def setProfileField_def initial_state_def initialProfiles_def
      spec_provider_values_def handleLoadProfiles_def invokeTauri_def resolve_with_def Let_def
      toLocalProfile_fields)

text \<open>
  Claim C6, amended. Every provider value is one of the five values of \<^verbatim>\<open>providerChoices\<close>:
  this holds initially and is kept by adding, removing, editing a field (the provider field
  through the selector), saving, and by loading whenever the returned profiles carry selector
  values; the payloads sent on save carry the same values.
\<close>

theorem provider_values_stay_selectable:
  "providers_selectable initial_state \<and>
   (providers_selectable st \<longrightarrow>
      providers_selectable (addProfile st) \<and>
      providers_selectable (removeProfile st) \<and>
      ((case kv of FieldProvider v \<Rightarrow> v \<in> set (map fst providerChoices) | _ \<Rightarrow> True) \<longrightarrow>
         providers_selectable (setProfileField kv st)) \<and>
      ((case fst (invokeTauri rt ''load_profiles'' [(''passphrase'', JString (passphrase st))] b) of
           Inl _ \<Rightarrow> True
         | Inr loaded \<Rightarrow>
             list_all (\<lambda>q. ProviderProfilePayload.provider q \<in> set (map fst providerChoices)) loaded) \<longrightarrow>
         providers_selectable (fst (handleLoadProfiles rt st b))) \<and>
      providers_selectable (fst (handleSaveProfiles rs st c)) \<and>
      list_all (\<lambda>q. ProviderProfilePayload.provider q \<in> set (map fst providerChoices))
               (map toPayload (profiles st)))"
proof -
  have i: "providers_selectable initial_state"
    by (simp add: providers_selectable_def initial_state_def initialProfiles_def providerChoices_def)
  have s: "providers_selectable (fst (handleSaveProfiles rs st c))" if "providers_selectable st"
    using that by (simp add: providers_selectable_def handleSaveProfiles_profiles)
  have p: "list_all (\<lambda>q. ProviderProfilePayload.provider q \<in> set (map fst providerChoices))
               (map toPayload (profiles st))" if "providers_selectable st"
    using that by (simp add: providers_selectable_def list_all_iff toPayload_fields)
  from i s p show ?thesis
    by (simp add: addProfile_selectable removeProfile_selectable setProfileField_selectable
        handleLoadProfiles_selectable)
qed

theorem provider_values_stay_selectable_witness:
  "providers_selectable initial_state \<and>
   (case FieldProvider ''cc-switch'' of FieldProvider v \<Rightarrow> v \<in> set (map fst providerChoices) | _ \<Rightarrow> True) \<and>
   providers_selectable (setProfileField (FieldProvider ''cc-switch'') initial_state) \<and>
   (case fst (invokeTauri (Some (resolve_with [profileA])) ''load_profiles''
               [(''passphrase'', JString (passphrase initial_state))] ()) of
           Inl _ \<Rightarrow> True
         | Inr loaded \<Rightarrow>
             list_all (\<lambda>q. ProviderProfilePayload.provider q \<in> set (map fst providerChoices)) loaded) \<and>
   providers_selectable (fst (handleLoadProfiles (Some (resolve_with [profileA])) initial_state ())) \<and>
   providers_selectable (addProfile initial_state)"
proof -
  note t = provider_values_stay_selectable
      [of initial_state "FieldProvider ''cc-switch''" "Some (resolve_with [profileA])" "()"
          "Some (resolve_with ())" "()"]
  have k: "case FieldProvider ''cc-switch'' of FieldProvider v \<Rightarrow> v \<in> set (map fst providerChoices) | _ \<Rightarrow> True"
    by (simp add: providerChoices_def)
  have l: "case fst (invokeTauri (Some (resolve_with [profileA])) ''load_profiles''
               [(''passphrase'', JString (passphrase initial_state))] ()) of
           Inl _ \<Rightarrow> True
         | Inr loaded \<Rightarrow>
             list_all (\<lambda>q. ProviderProfilePayload.provider q \<in> set (map fst providerChoices)) loaded"
    by (simp add: invokeTauri_def resolve_with_def profileA_def providerChoices_def)
  from t have i: "providers_selectable initial_state" by blast
  from t i k have a: "providers_selectable (setProfileField (FieldProvider ''cc-switch'') initial_state)" by blast
  from t i l have b: "providers_selectable (fst (handleLoadProfiles (Some (resolve_with [profileA])) initial_state ()))" by blast
  from t i have c: "providers_selectable (addProfile initial_state)" by blast
  from i k a l b c show ?thesis by blast
qed

text \<open>
  Claim C7, as stated, fails. A backend rejection that carries an error kind and a trace
  identifier, as Tauri rejects (with a value that is not an \<^verbatim>\<open>Error\<close>), is shown as the
  fixed fallback text, which holds neither.
\<close>

theorem failure_message_lacks_trace_id:
  "\<not> sublist ''7f3a''
       (statusMessage (fst (handleLoadProfiles
          (Some (reject_with (OtherValue ''WrongPassphraseOrCorruptData trace=7f3a''))) initial_state ()))) \<and>
   \<not> sublist ''WrongPassphraseOrCorruptData''
       (statusMessage (fst (handleLoadProfiles
          (Some (reject_with (OtherValue ''WrongPassphraseOrCorruptData trace=7f3a''))) initial_state ()))) \<and>
   \<not> sublist ''7f3a''
       (statusMessage (fst (handleSaveProfiles
          (Some (reject_with (OtherValue ''SerializationFailed trace=7f3a''))) initial_state ()))) \<and>
   \<not> sublist ''SerializationFailed''
       (statusMessage (fst (handleSaveProfiles
          (Some (reject_with (OtherValue ''SerializationFailed trace=7f3a''))) initial_state ())))"
proof -
  have l: "statusMessage (fst (handleLoadProfiles
          (Some (reject_with (OtherValue ''WrongPassphraseOrCorruptData trace=7f3a''))) initial_state ()))
          = ''Failed to load profiles from encrypted store.''"
    by (simp add: load_message invokeTauri_def reject_with_def)
  have s: "statusMessage (fst (handleSaveProfiles
          (Some (reject_with (OtherValue ''SerializationFailed trace=7f3a''))) initial_state ()))
          = ''Failed to save profiles into encrypted store.''"
    by (simp add: save_message invokeTauri_def reject_with_def)
  have "\<not> sublist ''7f3a'' ''Failed to load profiles from encrypted store.''"
    "\<not> sublist ''WrongPassphraseOrCorruptData'' ''Failed to load profiles from encrypted store.''"
    "\<not> sublist ''7f3a'' ''Failed to save profiles into encrypted store.''"
    "\<not> sublist ''SerializationFailed'' ''Failed to save profiles into encrypted store.''"
    by code_simp+
  then show ?thesis unfolding l s by blast
qed

text \<open>
  Claim C7, amended. Every failure of a load or save shows the error tone and either the
  message of the thrown \<^verbatim>\<open>Error\<close>, unchanged, or the fixed text of the operation when the
  rejected value is not an \<^verbatim>\<open>Error\<close>; with no Tauri runtime it is the fixed text of
  \<^verbatim>\<open>invokeTauri\<close>. The handlers add no trace identifier, no error kind and nothing of
  the state.
\<close>

theorem failure_message_is_thrown_message_or_fallback:
  "(fst (invokeTauri rt ''load_profiles'' [(''passphrase'', JString (passphrase st))] b) = Inl err \<longrightarrow>
      statusTone (fst (handleLoadProfiles rt st b)) = ToneError \<and>
      statusMessage (fst (handleLoadProfiles rt st b)) =
        (case err of ErrorObject message \<Rightarrow> message
         | OtherValue _ \<Rightarrow> ''Failed to load profiles from encrypted store.'')) \<and>
   (fst (invokeTauri rs ''save_profiles''
             [(''passphrase'', JString (passphrase st)),
              (''profiles'', JProfiles (map toPayload (profiles st)))] c) = Inl err \<longrightarrow>
      statusTone (fst (handleSaveProfiles rs st c)) = ToneError \<and>
      statusMessage (fst (handleSaveProfiles rs st c)) =
        (case err of ErrorObject message \<Rightarrow> message
         | OtherValue _ \<Rightarrow> ''Failed to save profiles into encrypted store.'')) \<and>
   statusMessage (fst (handleLoadProfiles None st b)) =
      ''Tauri runtime is unavailable in browser preview mode.'' \<and>
   statusMessage (fst (handleSaveProfiles None st c)) =
      ''Tauri runtime is unavailable in browser preview mode.''"
  by (simp add: load_message save_message load_tone save_tone invokeTauri_def split: thrown.splits)

theorem failure_message_is_thrown_message_or_fallback_witness:
  "fst (invokeTauri (Some (reject_with (ErrorObject ''vault locked''))) ''load_profiles''
          [(''passphrase'', JString (passphrase initial_state))] ()) = Inl (ErrorObject ''vault locked'') \<and>
   statusTone (fst (handleLoadProfiles (Some (reject_with (ErrorObject ''vault locked''))) initial_state ())) = ToneError \<and>
   statusMessage (fst (handleLoadProfiles (Some (reject_with (ErrorObject ''vault locked''))) initial_state ()))
       = ''vault locked'' \<and>
   fst (invokeTauri (Some (reject_with (OtherValue ''SerializationFailed trace=7f3a''))) ''save_profiles''
             [(''passphrase'', JString (passphrase initial_state)),
              (''profiles'', JProfiles (map toPayload (profiles initial_state)))] ())
       = Inl (OtherValue ''SerializationFailed trace=7f3a'') \<and>
   statusMessage (fst (handleSaveProfiles (Some (reject_with (OtherValue ''SerializationFailed trace=7f3a''))) initial_state ()))
       = ''Failed to save profiles into encrypted store.''"
proof -
  have l: "fst (invokeTauri (Some (reject_with (ErrorObject ''vault locked''))) ''load_profiles''
          [(''passphrase'', JString (passphrase initial_state))] ()) = Inl (ErrorObject ''vault locked'')"
    by (simp add: invokeTauri_def reject_with_def)
  have s: "fst (invokeTauri (Some (reject_with (OtherValue ''SerializationFailed trace=7f3a''))) ''save_profiles''
             [(''passphrase'', JString (passphrase initial_state)),
              (''profiles'', JProfiles (map toPayload (profiles initial_state)))] ())
       = Inl (OtherValue ''SerializationFailed trace=7f3a'')"
    by (simp add: invokeTauri_def reject_with_def)
  from l failure_message_is_thrown_message_or_fallback
         [of "Some (reject_with (ErrorObject ''vault locked''))" initial_state "()" "ErrorObject ''vault locked''"
             "Some (reject_with (ErrorObject ''vault locked''))" "()"]
  have a: "statusTone (fst (handleLoadProfiles (Some (reject_with (ErrorObject ''vault locked''))) initial_state ())) = ToneError"
    and b: "statusMessage (fst (handleLoadProfiles (Some (reject_with (ErrorObject ''vault locked''))) initial_state ()))
       = ''vault locked''"
    by (simp_all only: thrown.case) blast+
  from s failure_message_is_thrown_message_or_fallback
         [of "Some (reject_with (OtherValue ''SerializationFailed trace=7f3a''))" initial_state "()"
             "OtherValue ''SerializationFailed trace=7f3a''"
             "Some (reject_with (OtherValue ''SerializationFailed trace=7f3a''))" "()"]
  have c: "statusMessage (fst (handleSaveProfiles (Some (reject_with (OtherValue ''SerializationFailed trace=7f3a''))) initial_state ()))
       = ''Failed to save profiles into encrypted store.''"
    by (simp only: thrown.case) blast
  from l a b s c show ?thesis by blast
qed

text \<open>
  Claim C8. When the \<^verbatim>\<open>load_profiles\<close> invocation throws, whether the backend rejects or the
  Tauri runtime is absent, the profile list, the active index and the passphrase stay as they
  were: the handler changes the status tone (to error) and the status message only, and
  leaves the working flag false.
\<close>

theorem load_failure_keeps_profiles:
  assumes "fst (invokeTauri runtime ''load_profiles'' [(''passphrase'', JString (passphrase st))] b) = Inl err"
  shows "fst (handleLoadProfiles runtime st b) =
           st\<lparr>statusTone := ToneError,
              statusMessage := statusMessage (fst (handleLoadProfiles runtime st b)),
              isWorking := False\<rparr> \<and>
         profiles (fst (handleLoadProfiles runtime st b)) = profiles st \<and>
         activeProfileIndex (fst (handleLoadProfiles runtime st b)) = activeProfileIndex st \<and>
         passphrase (fst (handleLoadProfiles runtime st b)) = passphrase st \<and>
         isWorking (fst (handleLoadProfiles runtime st b)) = False \<and>
         statusTone (fst (handleLoadProfiles runtime st b)) = ToneError"
proof -
  obtain b' where "invokeTauri runtime ''load_profiles'' [(''passphrase'', JString (passphrase st))] b = (Inl err, b')"
    using assms by (cases "invokeTauri runtime ''load_profiles'' [(''passphrase'', JString (passphrase st))] b") simp
  from load_rejected [OF this] show ?thesis by simp
qed

theorem load_failure_keeps_profiles_witness:
  "fst (invokeTauri (None :: (unit, ProviderProfilePayload list) invoke option) ''load_profiles''
          [(''passphrase'', JString (passphrase (addProfile initial_state)))] ())
     = Inl (ErrorObject ''Tauri runtime is unavailable in browser preview mode.'') \<and>
   profiles (fst (handleLoadProfiles (None :: (unit, ProviderProfilePayload list) invoke option)
                    (addProfile initial_state) ())) = profiles (addProfile initial_state) \<and>
   activeProfileIndex (fst (handleLoadProfiles (None :: (unit, ProviderProfilePayload list) invoke option)
                    (addProfile initial_state) ())) = 1 \<and>
   isWorking (fst (handleLoadProfiles (None :: (unit, ProviderProfilePayload list) invoke option)
                    (addProfile initial_state) ())) = False"
proof -
  have h: "fst (invokeTauri (None :: (unit, ProviderProfilePayload list) invoke option) ''load_profiles''
          [(''passphrase'', JString (passphrase (addProfile initial_state)))] ())
     = Inl (ErrorObject ''Tauri runtime is unavailable in browser preview mode.'')"
    by (simp add: invokeTauri_def)
  have a: "activeProfileIndex (addProfile initial_state) = 1"
    by (simp add: addProfile_def initial_state_def initialProfiles_def)
  from load_failure_keeps_profiles [OF h] h a show ?thesis by simp
qed

text \<open>
  Claim C9. When \<^verbatim>\<open>load_profiles\<close> resolves with the empty list, the profile list and the
  active index are unchanged and only the status line is updated; in a state reached from the
  initial one by the Add and Remove buttons the list shown afterwards is therefore not empty.
\<close>

theorem empty_load_keeps_profiles:
  assumes "fst (invokeTauri runtime ''load_profiles'' [(''passphrase'', JString (passphrase st))] b) = Inr []"
  shows "fst (handleLoadProfiles runtime st b) =
           st\<lparr>statusTone := ToneInfo,
              statusMessage := ''No encrypted profiles found. Save one to create your settings vault.'',
              isWorking := False\<rparr> \<and>
         profiles (fst (handleLoadProfiles runtime st b)) = profiles st \<and>
         activeProfileIndex (fst (handleLoadProfiles runtime st b)) = activeProfileIndex st \<and>
         (st = run_ops ops initial_state \<longrightarrow> profiles (fst (handleLoadProfiles runtime st b)) \<noteq> [])"
proof -
  obtain b' where "invokeTauri runtime ''load_profiles'' [(''passphrase'', JString (passphrase st))] b = (Inr [], b')"
    using assms by (cases "invokeTauri runtime ''load_profiles'' [(''passphrase'', JString (passphrase st))] b") simp
  from load_empty [OF this]
  have eq: "fst (handleLoadProfiles runtime st b) =
           st\<lparr>statusTone := ToneInfo,
              statusMessage := ''No encrypted profiles found. Save one to create your settings vault.'',
              isWorking := False\<rparr>" by simp
  have "profiles (run_ops ops initial_state) \<noteq> []"
    using run_ops_valid [OF initial_valid, of ops] by (simp add: selection_valid_def)
  then show ?thesis unfolding eq by simp
qed

theorem empty_load_keeps_profiles_witness:
  "fst (invokeTauri (Some (resolve_with [])) ''load_profiles''
          [(''passphrase'', JString (passphrase initial_state))] ()) = Inr [] \<and>
   initial_state = run_ops [] initial_state \<and>
   profiles (fst (handleLoadProfiles (Some (resolve_with [])) initial_state ())) = initialProfiles \<and>
   activeProfileIndex (fst (handleLoadProfiles (Some (resolve_with [])) initial_state ())) = 0 \<and>
   profiles (fst (handleLoadProfiles (Some (resolve_with [])) initial_state ())) \<noteq> []"
proof -
  have h: "fst (invokeTauri (Some (resolve_with [])) ''load_profiles''
          [(''passphrase'', JString (passphrase initial_state))] ()) = Inr []"
    by (simp add: invokeTauri_def resolve_with_def)
  have r: "initial_state = run_ops [] initial_state" by simp
  have p: "profiles initial_state = initialProfiles" and a: "activeProfileIndex initial_state = 0"
    by (simp_all add: initial_state_def)
  from empty_load_keeps_profiles [OF h, of "[]"] r
  have "profiles (fst (handleLoadProfiles (Some (resolve_with [])) initial_state ())) = profiles initial_state"
    and "activeProfileIndex (fst (handleLoadProfiles (Some (resolve_with [])) initial_state ())) = activeProfileIndex initial_state"
    and "profiles (fst (handleLoadProfiles (Some (resolve_with [])) initial_state ())) \<noteq> []"
    by blast+
  with h r p a show ?thesis by metis
qed

text \<open>
  Claim C10. From the initial single-profile state, every sequence of \<^verbatim>\<open>addProfile\<close> and
  \<^verbatim>\<open>removeProfile\<close> keeps the list non-empty and the active index inside the list.
  \<^verbatim>\<open>removeProfile\<close> does nothing when one profile remains and otherwise deletes the active
  profile and selects an existing one; \<^verbatim>\<open>addProfile\<close> appends one profile and selects it.
\<close>

theorem add_remove_keep_selection_valid:
  "selection_valid (run_ops ops initial_state) \<and>
   (length (profiles (run_ops ops initial_state)) = 1 \<longrightarrow>
      removeProfile (run_ops ops initial_state) = run_ops ops initial_state) \<and>
   (1 < length (profiles (run_ops ops initial_state)) \<longrightarrow>
      profiles (removeProfile (run_ops ops initial_state)) =
        take (nat (activeProfileIndex (run_ops ops initial_state))) (profiles (run_ops ops initial_state)) @
        drop (Suc (nat (activeProfileIndex (run_ops ops initial_state)))) (profiles (run_ops ops initial_state))) \<and>
   selection_valid (removeProfile (run_ops ops initial_state)) \<and>
   selection_valid (addProfile (run_ops ops initial_state)) \<and>
   profiles (addProfile (run_ops ops initial_state)) !
       nat (activeProfileIndex (addProfile (run_ops ops initial_state))) =
     last (profiles (addProfile (run_ops ops initial_state))) \<and>
   butlast (profiles (addProfile (run_ops ops initial_state))) = profiles (run_ops ops initial_state)"
proof -
  have v: "selection_valid (run_ops ops initial_state)"
    by (rule run_ops_valid [OF initial_valid])
  have b: "butlast (profiles (addProfile st)) = profiles st" for st
    by (simp add: addProfile_def)
  from v show ?thesis
    by (simp add: removeProfile_single removeProfile_removes_active removeProfile_valid
        addProfile_valid addProfile_selects_new b)
qed

theorem add_remove_keep_selection_valid_witness:
  "length (profiles (run_ops [Remove] initial_state)) = 1 \<and>
   removeProfile (run_ops [Remove] initial_state) = run_ops [Remove] initial_state \<and>
   1 < length (profiles (run_ops [Add, Add] initial_state)) \<and>
   map LocalProfile.name (profiles (removeProfile (run_ops [Add, Add] initial_state))) =
     [''Primary OpenAI'', ''Profile 2''] \<and>
   activeProfileIndex (removeProfile (run_ops [Add, Add] initial_state)) = 1 \<and>
   selection_valid (run_ops [Add, Add, Remove, Remove, Remove] initial_state)"
proof -
  have one: "length (profiles (run_ops [Remove] initial_state)) = 1"
    by (simp add: removeProfile_def initial_state_def initialProfiles_def)
  have two: "1 < length (profiles (run_ops [Add, Add] initial_state))"
    by (simp add: addProfile_def)
  have st: "profiles (run_ops [Add, Add] initial_state) =
      initialProfiles @
      [\<lparr> LocalProfile.name = ''Profile 2'', LocalProfile.provider = ''openai'',
         baseUrl = ''https://api.openai.com/v1'', apiKey = '''',
         LocalProfile.model = ''gpt-4.1-mini'', LocalProfile.enabled = True \<rparr>,
       \<lparr> LocalProfile.name = ''Profile 3'', LocalProfile.provider = ''openai'',
         baseUrl = ''https://api.openai.com/v1'', apiKey = '''',
         LocalProfile.model = ''gpt-4.1-mini'', LocalProfile.enabled = True \<rparr>]"
    "activeProfileIndex (run_ops [Add, Add] initial_state) = 2"
    by (simp_all add: addProfile_def initial_state_def initialProfiles_def show_nat.simps)
  note t = add_remove_keep_selection_valid
  from t [of "[Remove]"] one
  have r1: "removeProfile (run_ops [Remove] initial_state) = run_ops [Remove] initial_state" by blast
  from t [of "[Add, Add]"] two
  have "profiles (removeProfile (run_ops [Add, Add] initial_state)) =
        take (nat (activeProfileIndex (run_ops [Add, Add] initial_state))) (profiles (run_ops [Add, Add] initial_state)) @
        drop (Suc (nat (activeProfileIndex (run_ops [Add, Add] initial_state)))) (profiles (run_ops [Add, Add] initial_state))"
    by blast
  then have r2: "map LocalProfile.name (profiles (removeProfile (run_ops [Add, Add] initial_state))) =
     [''Primary OpenAI'', ''Profile 2'']"
    unfolding st by (simp add: initialProfiles_def)
  have r3: "activeProfileIndex (removeProfile (run_ops [Add, Add] initial_state)) = 1"
    using two st(2) by (simp add: removeProfile_def)
  from t [of "[Add, Add, Remove, Remove, Remove]"]
  have r4: "selection_valid (run_ops [Add, Add, Remove, Remove, Remove] initial_state)" by blast
  from one r1 two r2 r3 r4 show ?thesis by blast
qed

end
